theory Spec2Isabelle
  imports Complex_Main
begin

section \<open>Matrix validation predicates of \<open>stan/math/matrix_error_handling.hpp\<close>\<close>

subsection \<open>Scalars, matrices, diagnostics\<close>

text \<open>
  Every predicate of the header is a template over the scalar type \<open>T_y\<close>, the result type
  \<open>T_result\<close> and the error policy \<open>Policy\<close>. The embedding is polymorphic in the scalar
  type \<open>'a\<close> and in the result type \<open>'r\<close>. What the header uses but does not define is
  gathered in one environment record:
  \<^item> the operators of \<open>T_y\<close> that the code applies (\<open>-\<close>, \<open>fabs\<close>, \<open>>\<close>, \<open><=\<close>,
    \<open>boost::math::isnan\<close>, \<open>boost::math::isfinite\<close>) and the literal \<open>1.0\<close>;
  \<^item> the constant \<open>CONSTRAINT_TOLERANCE\<close> (declared in another header);
  \<^item> the values of the diagonal factor that Eigen's \<open>y.ldlt().vectorD()\<close> produces, a
    third-party collaborator;
  \<^item> the behaviour that \<open>Policy\<close> gives to \<open>raise_domain_error\<close>: it either raises
    (\<open>None\<close>) or hands back a value of the result type (\<open>Some tmp\<close>).
  Nothing is assumed about \<open>>\<close> and \<open><=\<close>: for IEEE doubles both are false on a NaN.
  Sizes, and the loop counters of type \<open>size_type\<close> (64 bits, compared with sizes only),
  are natural numbers. The loop counters of type \<open>int\<close> in \<open>check_not_nan\<close> and
  \<open>check_finite\<close> are integers with the 32-bit bound written out.
\<close>

record 'a matrix =
  rows :: nat
  cols :: nat
  coeffs :: "nat \<Rightarrow> nat \<Rightarrow> 'a"

text \<open>
  \<open>y(i,j)\<close>: Eigen asserts that the index pair lies inside the matrix; \<open>None\<close> is the
  failed assertion.
\<close>

definition elem :: "'a matrix \<Rightarrow> nat \<Rightarrow> nat \<Rightarrow> 'a option" where
  "elem y i j = (if i < rows y \<and> j < cols y then Some (coeffs y i j) else None)"

text \<open>
  The same access with indices of type \<open>int\<close>, converted to Eigen's 64-bit index: the
  assertion is \<open>0 <= i < y.rows()\<close> and \<open>0 <= j < y.cols()\<close>.
\<close>

definition elem_int :: "'a matrix \<Rightarrow> int \<Rightarrow> int \<Rightarrow> 'a option" where
  "elem_int y i j =
     (if 0 \<le> i \<and> i < int (rows y) \<and> 0 \<le> j \<and> j < int (cols y)
      then Some (coeffs y (nat i) (nat j)) else None)"

text \<open>
  A column vector \<open>Eigen::Matrix<T_y,Dynamic,1>\<close> is the list of its entries:
  \<open>y.rows()\<close> is the length and \<open>y[i]\<close>, with \<open>i\<close> an \<open>int\<close>, asserts \<open>0 <= i < y.rows()\<close>.
\<close>

definition vec_at :: "'a list \<Rightarrow> int \<Rightarrow> 'a option" where
  "vec_at y i = (if 0 \<le> i \<and> i < int (length y) then Some (y ! nat i) else None)"

text \<open>
  The largest value of a 32-bit \<open>int\<close>. Incrementing an \<open>int\<close> that holds it is signed
  overflow, which C++ leaves undefined.
\<close>

definition INT_MAX :: int where
  "INT_MAX = 2147483647"

text \<open>
  What is streamed into a message or handed to \<open>raise_domain_error\<close> as the offending
  value is a size (or a counter of type \<open>size_type\<close>), a counter of type \<open>int\<close> or a
  scalar. A message is the sequence of pieces written to the \<open>ostringstream\<close>; the
  placeholder \<open>%1%\<close> stays inside the literal text, as in the source.
\<close>

datatype 'a arg = Dim nat | Idx int | Num 'a

datatype 'a piece = Lit string | Put "'a arg"

record 'a domain_error =
  fname :: string
  message :: "'a piece list"
  val :: "'a arg"

record ('a, 'r) env =
  sub :: "'a \<Rightarrow> 'a \<Rightarrow> 'a"
  fabs :: "'a \<Rightarrow> 'a"
  gt :: "'a \<Rightarrow> 'a \<Rightarrow> bool"
  le :: "'a \<Rightarrow> 'a \<Rightarrow> bool"
  isnan :: "'a \<Rightarrow> bool"
  isfinite :: "'a \<Rightarrow> bool"
  lit_one :: 'a
  CONSTRAINT_TOLERANCE :: 'a
  ldlt_D :: "'a matrix \<Rightarrow> nat \<Rightarrow> 'a"
  policy :: "'a domain_error \<Rightarrow> 'r option"

text \<open>
  Modelled from the spec: the sequence that \<open>y.ldlt().vectorD()\<close> yields. Eigen is not part
  of the sources. The spec describes the numeric factorization collaborator as
  "producing a sequence of diagonal factor values for a square matrix": the diagonal
  factor of a matrix of order \<open>n\<close> has the \<open>n\<close> diagonal positions \<open>0, ..., n - 1\<close>, so the
  sequence has one value for each of them and none for the empty matrix. The values are
  the collaborator's and stay a parameter (\<open>ldlt_D\<close>).
\<close>

definition ldlt_vectorD :: "('a, 'r) env \<Rightarrow> 'a matrix \<Rightarrow> 'a list" where
  "ldlt_vectorD E y = map (ldlt_D E y) [0 ..< rows y]"

subsection \<open>The output slot and the outcome of a call\<close>

text \<open>
  \<open>T_result* result\<close> is either the null pointer or points to a slot of the caller with
  its present contents. The state of a call is that slot together with the list of all
  diagnostics handed to \<open>raise_domain_error\<close> so far, oldest first. A call returns a
  Boolean, or is left by the exception the policy raised, or stops at a failed index
  assertion, or runs into the signed overflow of an \<open>int\<close> counter (\<open>Int_overflow\<close>: what
  the program does from there on is undefined); writing through a null pointer would be
  \<open>Null_write\<close>.
\<close>

datatype 'r slot = Null | Slot 'r

record ('a, 'r) state =
  result :: "'r slot"
  raised :: "'a domain_error list"

datatype 'a outcome =
  Return bool | Throw "'a domain_error" | Assert_fail | Int_overflow | Null_write

text \<open>The assignment \<open>*result = tmp\<close>.\<close>

fun assign :: "'r \<Rightarrow> ('a, 'r) state \<Rightarrow> ('a, 'r) state option" where
  "assign tmp s = (case result s of Null \<Rightarrow> None | Slot _ \<Rightarrow> Some (s\<lparr>result := Slot tmp\<rparr>))"

text \<open>
  The block every predicate runs on a violation:
  \<^verbatim>\<open>
  T_result tmp = raise_domain_error<...>(function, message, value, Policy());
  if (result != 0)
    *result = tmp;
  return false;
  \<close>
\<close>

definition fail_with ::
  "('a, 'r) env \<Rightarrow> string \<Rightarrow> 'a piece list \<Rightarrow> 'a arg \<Rightarrow> ('a, 'r) state \<Rightarrow> 'a outcome \<times> ('a, 'r) state"
where
  "fail_with E function msg v s =
     (let e = \<lparr>fname = function, message = msg, val = v\<rparr>;
          s1 = s\<lparr>raised := raised s @ [e]\<rparr>
      in case policy E e of
           None \<Rightarrow> (Throw e, s1)
         | Some tmp \<Rightarrow>
             if result s1 \<noteq> Null
             then (case assign tmp s1 of
                     None \<Rightarrow> (Null_write, s1)
                   | Some s2 \<Rightarrow> (Return False, s2))
             else (Return False, s1))"

text \<open>
  \<open>if (!check(...)) return false;\<close> followed by the rest of the body: the rest runs only
  when the check returned \<open>true\<close>; any other outcome is the outcome of the caller.
\<close>

fun and_then ::
  "'a outcome \<times> ('a, 'r) state \<Rightarrow> (('a, 'r) state \<Rightarrow> 'a outcome \<times> ('a, 'r) state)
    \<Rightarrow> 'a outcome \<times> ('a, 'r) state"
where
  "and_then (Return True, s) rest = rest s"
| "and_then (out, s) rest = (out, s)"

subsection \<open>The predicates\<close>

definition check_size_match ::
  "('a, 'r) env \<Rightarrow> string \<Rightarrow> nat \<Rightarrow> nat \<Rightarrow> ('a, 'r) state \<Rightarrow> 'a outcome \<times> ('a, 'r) state"
where
  "check_size_match E function i j s =
     (if i \<noteq> j
      then fail_with E function
             [Lit ''i and j must be same.  Found i=%1%, j='', Put (Dim j)] (Dim i) s
      else (Return True, s))"

text \<open>
  Modelled from the spec: \<open>check_positive\<close>, which the composite predicates call on the row
  count and which lives in a header that is not part of the sources at hand. The spec
  describes it as the primitive "validating a scalar is > 0" that follows the shared
  error-signalling contract of the layer (message with the subject's name and the
  offending value, the reporting mechanism, the guarded write of the slot, \<open>false\<close>). The
  spec does not give the wording of its message; the model prints the name and a text
  with the one placeholder. Nothing proved below depends on that wording.
\<close>

definition check_positive ::
  "('a, 'r) env \<Rightarrow> string \<Rightarrow> nat \<Rightarrow> string \<Rightarrow> ('a, 'r) state \<Rightarrow> 'a outcome \<times> ('a, 'r) state"
where
  "check_positive E function x name s =
     (if \<not> 0 < x
      then fail_with E function [Lit name, Lit '' is %1%, but must be > 0''] (Dim x) s
      else (Return True, s))"

text \<open>
  The messages, piece by piece as the source streams them.
\<close>

definition not_symmetric_message :: "string \<Rightarrow> nat \<Rightarrow> nat \<Rightarrow> 'a \<Rightarrow> 'a piece list" where
  "not_symmetric_message name m n ynm =
     [Lit name, Lit '' is not symmetric. '',
      Lit name, Lit ''['', Put (Dim m), Lit '','', Put (Dim n), Lit ''] is %1%, but '',
      Lit name, Lit ''['', Put (Dim n), Lit '','', Put (Dim m), Lit ''] element is '',
      Put (Num ynm)]"

definition not_pos_definite_message :: "string \<Rightarrow> 'a piece list" where
  "not_pos_definite_message name =
     [Lit name, Lit '' is not positive definite. '', Lit name, Lit ''(0,0) is %1%.'']"

definition not_corr_message :: "string \<Rightarrow> nat \<Rightarrow> 'a piece list" where
  "not_corr_message name k =
     [Lit name, Lit '' is not a valid correlation matrix. '',
      Lit name, Lit ''('', Put (Dim k), Lit '','', Put (Dim k),
      Lit '') is %1%, but should be near 1.0'']"

definition nan_message :: "string \<Rightarrow> int \<Rightarrow> 'a piece list" where
  "nan_message name i =
     [Lit name, Lit ''['', Put (Idx i), Lit ''] is %1%, but must not be nan!'']"

definition nan_matrix_message :: "string \<Rightarrow> int \<Rightarrow> int \<Rightarrow> 'a piece list" where
  "nan_matrix_message name i j =
     [Lit name, Lit ''['', Put (Idx i), Lit '','', Put (Idx j),
      Lit ''] is %1%, but must not be nan!'']"

definition not_finite_message :: "string \<Rightarrow> int \<Rightarrow> 'a piece list" where
  "not_finite_message name i =
     [Lit name, Lit ''['', Put (Idx i), Lit ''] is %1%, but must be finite!'']"

text \<open>
  The two nested loops of \<open>check_symmetric\<close>, \<open>m\<close> outer and \<open>n\<close> inner from \<open>m + 1\<close>, as
  one recursion on the pair of counters: the inner loop advances \<open>n\<close>; when it is
  exhausted the outer loop advances \<open>m\<close> and restarts \<open>n\<close> at \<open>m + 1\<close>.
\<close>

function symmetric_loop ::
  "('a, 'r) env \<Rightarrow> string \<Rightarrow> 'a matrix \<Rightarrow> string \<Rightarrow> nat \<Rightarrow> nat \<Rightarrow> nat \<Rightarrow> ('a, 'r) state
    \<Rightarrow> 'a outcome \<times> ('a, 'r) state"
where
  "symmetric_loop E function y name k m n s =
     (if m < k then
        (if n < k then
           (case (elem y m n, elem y n m) of
              (Some ymn, Some ynm) \<Rightarrow>
                if gt E (fabs E (sub E ymn ynm)) (CONSTRAINT_TOLERANCE E)
                then fail_with E function (not_symmetric_message name m n ynm) (Num ymn) s
                else symmetric_loop E function y name k m (Suc n) s
            | _ \<Rightarrow> (Assert_fail, s))
         else symmetric_loop E function y name k (Suc m) (Suc m + 1) s)
      else (Return True, s))"
  by pat_completeness auto
termination
  by (relation "measures [\<lambda>(E, function, y, name, k, m, n, s). k - m,
                          \<lambda>(E, function, y, name, k, m, n, s). k - n]") auto

definition check_symmetric ::
  "('a, 'r) env \<Rightarrow> string \<Rightarrow> 'a matrix \<Rightarrow> string \<Rightarrow> ('a, 'r) state \<Rightarrow> 'a outcome \<times> ('a, 'r) state"
where
  "check_symmetric E function y name s =
     (let k = rows y in
      if k = 1 then (Return True, s)
      else symmetric_loop E function y name k 0 (0 + 1) s)"

text \<open>
  \<open>check_pos_definite\<close>. The conjunction \<open>y.rows() == 1 && y(0,0) <= CONSTRAINT_TOLERANCE\<close>
  reads \<open>y(0,0)\<close> only when the row count is one. Both failure blocks build the same
  message and pass \<open>y(0,0)\<close> as the offending value.
\<close>

definition check_pos_definite ::
  "('a, 'r) env \<Rightarrow> string \<Rightarrow> 'a matrix \<Rightarrow> string \<Rightarrow> ('a, 'r) state \<Rightarrow> 'a outcome \<times> ('a, 'r) state"
where
  "check_pos_definite E function y name s =
     (let msg = not_pos_definite_message name;
          factor =
            (let cholesky_vectorD = ldlt_vectorD E y in
             if list_ex (\<lambda>d. le E d (CONSTRAINT_TOLERANCE E)) cholesky_vectorD
             then (case elem y 0 0 of
                     None \<Rightarrow> (Assert_fail, s)
                   | Some y00 \<Rightarrow> fail_with E function msg (Num y00) s)
             else (Return True, s))
      in if rows y = 1
         then (case elem y 0 0 of
                 None \<Rightarrow> (Assert_fail, s)
               | Some y00 \<Rightarrow>
                   if le E y00 (CONSTRAINT_TOLERANCE E)
                   then fail_with E function msg (Num y00) s
                   else factor)
         else factor)"

text \<open>The overload of \<open>check_cov_matrix\<close> with the parameter \<open>name\<close> (which it does not use).\<close>

definition check_cov_matrix ::
  "('a, 'r) env \<Rightarrow> string \<Rightarrow> 'a matrix \<Rightarrow> string \<Rightarrow> ('a, 'r) state \<Rightarrow> 'a outcome \<times> ('a, 'r) state"
where
  "check_cov_matrix E function y name s =
     and_then (check_size_match E function (rows y) (cols y) s) (\<lambda>s.
     and_then (check_positive E function (rows y) ''rows'' s) (\<lambda>s.
     and_then (check_symmetric E function y ''y'' s) (\<lambda>s.
     and_then (check_pos_definite E function y ''y'' s) (\<lambda>s.
     (Return True, s)))))"

text \<open>
  The loop over the diagonal in \<open>check_corr_matrix\<close>. \<open>Return True\<close> stands for the loop
  running to its end, after which the body goes on.
\<close>

function unit_diagonal_loop ::
  "('a, 'r) env \<Rightarrow> string \<Rightarrow> 'a matrix \<Rightarrow> string \<Rightarrow> nat \<Rightarrow> ('a, 'r) state
    \<Rightarrow> 'a outcome \<times> ('a, 'r) state"
where
  "unit_diagonal_loop E function y name k s =
     (if k < rows y then
        (case elem y k k of
           None \<Rightarrow> (Assert_fail, s)
         | Some ykk \<Rightarrow>
             if gt E (fabs E (sub E ykk (lit_one E))) (CONSTRAINT_TOLERANCE E)
             then fail_with E function (not_corr_message name k) (Num ykk) s
             else unit_diagonal_loop E function y name (Suc k) s)
      else (Return True, s))"
  by pat_completeness auto
termination
  by (relation "measure (\<lambda>(E, function, y, name, k, s). rows y - k)") auto

definition check_corr_matrix ::
  "('a, 'r) env \<Rightarrow> string \<Rightarrow> 'a matrix \<Rightarrow> string \<Rightarrow> ('a, 'r) state \<Rightarrow> 'a outcome \<times> ('a, 'r) state"
where
  "check_corr_matrix E function y name s =
     and_then (check_size_match E function (rows y) (cols y) s) (\<lambda>s.
     and_then (check_positive E function (rows y) ''rows'' s) (\<lambda>s.
     and_then (check_symmetric E function y ''y'' s) (\<lambda>s.
     and_then (unit_diagonal_loop E function y name 0 s) (\<lambda>s.
     and_then (check_pos_definite E function y ''y'' s) (\<lambda>s.
     (Return True, s))))))"

text \<open>
  \<open>check_not_nan\<close> on a column vector. The counter is declared \<open>int i\<close> and compared with
  the 64-bit \<open>y.rows()\<close> by value; \<open>i++\<close> on a counter that holds \<open>INT_MAX\<close> overflows.
\<close>

function not_nan_loop ::
  "('a, 'r) env \<Rightarrow> string \<Rightarrow> 'a list \<Rightarrow> string \<Rightarrow> int \<Rightarrow> ('a, 'r) state
    \<Rightarrow> 'a outcome \<times> ('a, 'r) state"
where
  "not_nan_loop E function y name i s =
     (if i < int (length y) then
        (case vec_at y i of
           None \<Rightarrow> (Assert_fail, s)
         | Some yi \<Rightarrow>
             if isnan E yi
             then fail_with E function (nan_message name i) (Num yi) s
             else if i = INT_MAX then (Int_overflow, s)
             else not_nan_loop E function y name (i + 1) s)
      else (Return True, s))"
  by pat_completeness auto
termination
  by (relation "measure (\<lambda>(E, function, y, name, i, s). nat (int (length y) - i))") auto

definition check_not_nan ::
  "('a, 'r) env \<Rightarrow> string \<Rightarrow> 'a list \<Rightarrow> string \<Rightarrow> ('a, 'r) state \<Rightarrow> 'a outcome \<times> ('a, 'r) state"
where
  "check_not_nan E function y name s = not_nan_loop E function y name 0 s"

text \<open>
  \<open>check_not_nan\<close> on a matrix: \<open>i\<close> over the rows outside, \<open>j\<close> over the columns inside,
  again as one recursion on the pair of counters, both declared \<open>int\<close>.
\<close>

function not_nan_matrix_loop ::
  "('a, 'r) env \<Rightarrow> string \<Rightarrow> 'a matrix \<Rightarrow> string \<Rightarrow> int \<Rightarrow> int \<Rightarrow> ('a, 'r) state
    \<Rightarrow> 'a outcome \<times> ('a, 'r) state"
where
  "not_nan_matrix_loop E function y name i j s =
     (if i < int (rows y) then
        (if j < int (cols y) then
           (case elem_int y i j of
              None \<Rightarrow> (Assert_fail, s)
            | Some yij \<Rightarrow>
                if isnan E yij
                then fail_with E function (nan_matrix_message name i j) (Num yij) s
                else if j = INT_MAX then (Int_overflow, s)
                else not_nan_matrix_loop E function y name i (j + 1) s)
         else if i = INT_MAX then (Int_overflow, s)
         else not_nan_matrix_loop E function y name (i + 1) 0 s)
      else (Return True, s))"
  by pat_completeness auto
termination
  by (relation "measures [\<lambda>(E, function, y, name, i, j, s). nat (int (rows y) - i),
                          \<lambda>(E, function, y, name, i, j, s). nat (int (cols y) - j)]") auto

definition check_not_nan_matrix ::
  "('a, 'r) env \<Rightarrow> string \<Rightarrow> 'a matrix \<Rightarrow> string \<Rightarrow> ('a, 'r) state \<Rightarrow> 'a outcome \<times> ('a, 'r) state"
where
  "check_not_nan_matrix E function y name s = not_nan_matrix_loop E function y name 0 0 s"

text \<open>\<open>check_finite\<close> on a column vector, with the same \<open>int\<close> counter.\<close>

function finite_loop ::
  "('a, 'r) env \<Rightarrow> string \<Rightarrow> 'a list \<Rightarrow> string \<Rightarrow> int \<Rightarrow> ('a, 'r) state
    \<Rightarrow> 'a outcome \<times> ('a, 'r) state"
where
  "finite_loop E function y name i s =
     (if i < int (length y) then
        (case vec_at y i of
           None \<Rightarrow> (Assert_fail, s)
         | Some yi \<Rightarrow>
             if \<not> isfinite E yi
             then fail_with E function (not_finite_message name i) (Num yi) s
             else if i = INT_MAX then (Int_overflow, s)
             else finite_loop E function y name (i + 1) s)
      else (Return True, s))"
  by pat_completeness auto
termination
  by (relation "measure (\<lambda>(E, function, y, name, i, s). nat (int (length y) - i))") auto

definition check_finite ::
  "('a, 'r) env \<Rightarrow> string \<Rightarrow> 'a list \<Rightarrow> string \<Rightarrow> ('a, 'r) state \<Rightarrow> 'a outcome \<times> ('a, 'r) state"
where
  "check_finite E function y name s = finite_loop E function y name 0 s"

text \<open>The overload of \<open>check_cov_matrix\<close> without a name for the subject.\<close>

definition check_cov_matrix_Sigma ::
  "('a, 'r) env \<Rightarrow> string \<Rightarrow> 'a matrix \<Rightarrow> ('a, 'r) state \<Rightarrow> 'a outcome \<times> ('a, 'r) state"
where
  "check_cov_matrix_Sigma E function Sigma' s =
     and_then (check_size_match E function (rows Sigma') (cols Sigma') s) (\<lambda>s.
     and_then (check_positive E function (rows Sigma') ''rows'' s) (\<lambda>s.
     and_then (check_symmetric E function Sigma' ''Sigma'' s) (\<lambda>s.
     (Return True, s))))"

subsection \<open>Double precision scalars for concrete inputs\<close>

text \<open>
  A value of type \<open>double\<close> is a finite number, an infinity or a NaN; a finite value is
  written \<open>Fin x\<close> with the real number \<open>x\<close> it stands for (the values used below are
  small integers and a power of two, which are doubles). Comparisons with a NaN are false
  and arithmetic on a NaN gives a NaN, as IEEE 754 has it; comparisons and \<open>fabs\<close> of
  finite values are exact. A subtraction of finite values is correctly rounded: it is the
  exact difference whenever that is a \<open>double\<close>, which is the case for two integers of
  magnitude at most \<open>2^52\<close>. The result of every other finite subtraction is not
  determined here: it is what the parameter \<open>rnd\<close> says.
\<close>

datatype double = Fin real | PInf | NInf | NaN

definition small_int :: "real \<Rightarrow> bool" where
  "small_int x = (of_int \<lfloor>x\<rfloor> = x \<and> \<bar>x\<bar> \<le> 2 ^ 52)"

fun double_sub :: "(real \<Rightarrow> real \<Rightarrow> double) \<Rightarrow> double \<Rightarrow> double \<Rightarrow> double" where
  "double_sub rnd NaN b = NaN"
| "double_sub rnd a NaN = NaN"
| "double_sub rnd (Fin a) (Fin b) = (if small_int a \<and> small_int b then Fin (a - b) else rnd a b)"
| "double_sub rnd (Fin a) PInf = NInf"
| "double_sub rnd (Fin a) NInf = PInf"
| "double_sub rnd PInf PInf = NaN"
| "double_sub rnd PInf b = PInf"
| "double_sub rnd NInf NInf = NaN"
| "double_sub rnd NInf b = NInf"

fun double_fabs :: "double \<Rightarrow> double" where
  "double_fabs (Fin a) = Fin \<bar>a\<bar>"
| "double_fabs PInf = PInf"
| "double_fabs NInf = PInf"
| "double_fabs NaN = NaN"

fun double_le :: "double \<Rightarrow> double \<Rightarrow> bool" where
  "double_le NaN b = False"
| "double_le a NaN = False"
| "double_le NInf b = True"
| "double_le a PInf = True"
| "double_le (Fin a) (Fin b) = (a \<le> b)"
| "double_le a b = False"

fun double_gt :: "double \<Rightarrow> double \<Rightarrow> bool" where
  "double_gt NaN b = False"
| "double_gt a NaN = False"
| "double_gt a b = (\<not> double_le a b)"

fun double_isnan :: "double \<Rightarrow> bool" where
  "double_isnan NaN = True"
| "double_isnan a = False"

fun double_isfinite :: "double \<Rightarrow> bool" where
  "double_isfinite (Fin a) = True"
| "double_isfinite a = False"

text \<open>
  The environment for \<open>T_y = double\<close>, still open in the tolerance, the rounding of inexact
  differences, the values of the factorization and the policy.
\<close>

definition double_env ::
  "real \<Rightarrow> (real \<Rightarrow> real \<Rightarrow> double) \<Rightarrow> (double matrix \<Rightarrow> nat \<Rightarrow> double)
    \<Rightarrow> (double domain_error \<Rightarrow> 'r option) \<Rightarrow> (double, 'r) env"
where
  "double_env tol rnd ldlt pol =
     \<lparr>sub = double_sub rnd, fabs = double_fabs, gt = double_gt, le = double_le,
      isnan = double_isnan, isfinite = double_isfinite, lit_one = Fin 1,
      CONSTRAINT_TOLERANCE = Fin tol, ldlt_D = ldlt, policy = pol\<rparr>"

text \<open>
  The factor \<open>D\<close> of a diagonal matrix is its diagonal (Eigen's pivoting only reorders
  it); in particular the single factor of a matrix of order one is its entry. It serves
  as the collaborator at such inputs.
\<close>

definition diagonal_D :: "'a matrix \<Rightarrow> nat \<Rightarrow> 'a" where
  "diagonal_D y k = coeffs y k k"

text \<open>
  The concrete inputs subtract only integers of small magnitude, where no rounding takes
  place; the parameter \<open>rnd\<close> is not consulted there and is given this value.
\<close>

definition unrounded :: "real \<Rightarrow> real \<Rightarrow> double" where
  "unrounded a b = NaN"

text \<open>Matrices written down by their rows.\<close>

definition of_rows :: "nat \<Rightarrow> 'a list list \<Rightarrow> 'a matrix" where
  "of_rows c xss = \<lparr>rows = length xss, cols = c, coeffs = (\<lambda>i j. xss ! i ! j)\<rparr>"

text \<open>The two policies of the concrete inputs: raise, or hand back the value \<open>0\<close>.\<close>

definition raising :: "'a domain_error \<Rightarrow> nat option" where
  "raising e = None"

definition quiet :: "'a domain_error \<Rightarrow> nat option" where
  "quiet e = Some 0"

text \<open>
  The two environments of the concrete inputs: doubles, a tolerance of \<open>2^-27\<close> (a
  \<open>double\<close> of the order of \<open>1e-8\<close>), the factorization of diagonal matrices, and one of the
  two policies.
\<close>

definition raising_env :: "(double, nat) env" where
  "raising_env = double_env (1 / 2 ^ 27) unrounded diagonal_D raising"

definition quiet_env :: "(double, nat) env" where
  "quiet_env = double_env (1 / 2 ^ 27) unrounded diagonal_D quiet"

text \<open>The state of a call with a slot that holds \<open>7\<close>, and with a null pointer.\<close>

definition slot7 :: "(double, nat) state" where
  "slot7 = \<lparr>result = Slot 7, raised = []\<rparr>"

definition no_slot :: "(double, nat) state" where
  "no_slot = \<lparr>result = Null, raised = []\<rparr>"

subsection \<open>Notions used to state the properties\<close>

text \<open>
  The test of \<open>check_symmetric\<close> at the pair \<open>(m, n)\<close>, line 61 of the header:
  \<open>fabs(y(m,n) - y(n,m)) > CONSTRAINT_TOLERANCE\<close>.
\<close>

definition asymmetric :: "('a, 'r) env \<Rightarrow> 'a matrix \<Rightarrow> nat \<Rightarrow> nat \<Rightarrow> bool" where
  "asymmetric E y m n =
     gt E (fabs E (sub E (coeffs y m n) (coeffs y n m))) (CONSTRAINT_TOLERANCE E)"

text \<open>
  The order of a scan with two nested ascending counters: \<open>scan_from m n a b\<close> says that
  the pair \<open>(a, b)\<close> is visited at or after the pair \<open>(m, n)\<close>, so its negation says that
  \<open>(a, b)\<close> comes strictly before \<open>(m, n)\<close>.
\<close>

definition scan_from :: "nat \<Rightarrow> nat \<Rightarrow> nat \<Rightarrow> nat \<Rightarrow> bool" where
  "scan_from m n a b = (m < a \<or> (a = m \<and> n \<le> b))"

text \<open>
  The shape every call of this layer has: it returned \<open>true\<close>, or stopped at an index
  assertion or at the overflow of a counter, in all three cases with the state it started
  from, or it ended in the failure block, run once from the state it started from.
\<close>

definition settled ::
  "('a, 'r) env \<Rightarrow> string \<Rightarrow> ('a, 'r) state \<Rightarrow> 'a outcome \<times> ('a, 'r) state \<Rightarrow> bool"
where
  "settled E fn s r =
     (r = (Return True, s) \<or> r = (Assert_fail, s) \<or> r = (Int_overflow, s) \<or>
      (\<exists>msg v. r = fail_with E fn msg v s))"

text \<open>
  What a call that starts in state \<open>s\<close> and ends with the outcome and state \<open>r\<close> may do
  to the output slot. After \<open>true\<close>, after an index assertion and up to the overflow of a
  counter nothing has changed.
  After \<open>false\<close> one diagnostic was raised, the policy handed back a value for it, and
  the slot holds that value if the pointer is not null (a null pointer stays null). After
  an exception of the policy one diagnostic was raised and the slot is as it was. A
  write through a null pointer does not occur.
\<close>

definition slot_contract ::
  "('a, 'r) env \<Rightarrow> ('a, 'r) state \<Rightarrow> 'a outcome \<times> ('a, 'r) state \<Rightarrow> bool"
where
  "slot_contract E s r =
     (case fst r of
        Return b \<Rightarrow>
          if b then snd r = s
          else (case policy E (last (raised (snd r))) of
                  None \<Rightarrow> False
                | Some tmp \<Rightarrow>
                    raised (snd r) = raised s @ [last (raised (snd r))] \<and>
                    result (snd r) = (case result s of Null \<Rightarrow> Null | Slot old \<Rightarrow> Slot tmp))
      | Throw e \<Rightarrow> policy E e = None \<and> raised (snd r) = raised s @ [e] \<and> result (snd r) = result s
      | Assert_fail \<Rightarrow> snd r = s
      | Int_overflow \<Rightarrow> snd r = s
      | Null_write \<Rightarrow> False)"

section \<open>Properties\<close>

subsection \<open>The failure block and the loops\<close>

text \<open>
  The recursion equations of the loops are unfolded by hand, one step at a time.
\<close>

declare symmetric_loop.simps [simp del] unit_diagonal_loop.simps [simp del]
  not_nan_loop.simps [simp del] not_nan_matrix_loop.simps [simp del] finite_loop.simps [simp del]

text \<open>
  The failure block in closed form: the diagnostic is recorded, and the slot receives the
  value handed back by the policy exactly when the policy does not raise and the pointer
  is not null.
\<close>

lemma fail_with_eq:
  "fail_with E function msg v s =
     (let e = \<lparr>fname = function, message = msg, val = v\<rparr> in
      case policy E e of
        None \<Rightarrow> (Throw e, s\<lparr>raised := raised s @ [e]\<rparr>)
      | Some tmp \<Rightarrow> (Return False,
          s\<lparr>raised := raised s @ [e],
            result := (case result s of Null \<Rightarrow> Null | Slot old \<Rightarrow> Slot tmp)\<rparr>))"
  by (cases "result s") (auto simp: fail_with_def Let_def split: option.splits slot.splits)

lemma fail_with_not_True: "fst (fail_with E function msg v s) \<noteq> Return True"
  by (simp add: fail_with_eq Let_def split: option.splits)

lemma fail_with_not_Assert: "fst (fail_with E fn msg v s) \<noteq> Assert_fail"
  by (simp add: fail_with_eq Let_def split: option.splits)

text \<open>
  The scan of \<open>check_symmetric\<close> from the pair \<open>(m, n)\<close> on, inside the matrix: it returns
  \<open>true\<close> with the state untouched and the test of line 61 holds at no pair still to be
  visited, or it runs the failure block at the first such pair at which the test holds.
\<close>

lemma symmetric_loop_scan:
  assumes "k \<le> rows y" and "k \<le> cols y" and "m < n"
  shows "(symmetric_loop E fn y name k m n s = (Return True, s) \<and>
            (\<forall>a b. a < b \<and> b < k \<and> scan_from m n a b \<longrightarrow> \<not> asymmetric E y a b))
         \<or> (\<exists>a b. a < b \<and> b < k \<and> scan_from m n a b \<and> asymmetric E y a b \<and>
               (\<forall>a' b'. a' < b' \<and> b' < k \<and> scan_from m n a' b' \<and> \<not> scan_from a b a' b'
                   \<longrightarrow> \<not> asymmetric E y a' b') \<and>
               symmetric_loop E fn y name k m n s =
                 fail_with E fn (not_symmetric_message name a b (coeffs y b a))
                   (Num (coeffs y a b)) s)"
  using assms
proof (induction E fn y name k m n s rule: symmetric_loop.induct)
  case (1 E fn y name k m n s)
  show ?case
  proof (cases "m < k")
    case False
    then have "symmetric_loop E fn y name k m n s = (Return True, s)"
      by (simp add: symmetric_loop.simps)
    moreover have "\<forall>a b. a < b \<and> b < k \<and> scan_from m n a b \<longrightarrow> \<not> asymmetric E y a b"
      using False by (auto simp: scan_from_def)
    ultimately show ?thesis by blast
  next
    case mk: True
    show ?thesis
    proof (cases "n < k")
      case False
      have eq: "symmetric_loop E fn y name k m n s =
                symmetric_loop E fn y name k (Suc m) (Suc m + 1) s"
        using mk False by (subst symmetric_loop.simps) simp
      have sc: "\<And>a b. a < b \<Longrightarrow> b < k \<Longrightarrow> scan_from m n a b = scan_from (Suc m) (Suc m + 1) a b"
        using False by (auto simp: scan_from_def)
      have IH: "(symmetric_loop E fn y name k (Suc m) (Suc m + 1) s = (Return True, s) \<and>
            (\<forall>a b. a < b \<and> b < k \<and> scan_from (Suc m) (Suc m + 1) a b \<longrightarrow> \<not> asymmetric E y a b))
         \<or> (\<exists>a b. a < b \<and> b < k \<and> scan_from (Suc m) (Suc m + 1) a b \<and> asymmetric E y a b \<and>
               (\<forall>a' b'. a' < b' \<and> b' < k \<and> scan_from (Suc m) (Suc m + 1) a' b' \<and> \<not> scan_from a b a' b'
                   \<longrightarrow> \<not> asymmetric E y a' b') \<and>
               symmetric_loop E fn y name k (Suc m) (Suc m + 1) s =
                 fail_with E fn (not_symmetric_message name a b (coeffs y b a))
                   (Num (coeffs y a b)) s)"
        using "1.IH"(2)[OF mk False] "1.prems" by simp
      show ?thesis using IH unfolding eq using sc by metis
    next
      case nk: True
      have el: "elem y m n = Some (coeffs y m n)" "elem y n m = Some (coeffs y n m)"
        using mk nk "1.prems" by (auto simp: elem_def)
      show ?thesis
      proof (cases "asymmetric E y m n")
        case True
        have "symmetric_loop E fn y name k m n s =
              fail_with E fn (not_symmetric_message name m n (coeffs y n m))
                (Num (coeffs y m n)) s"
          using mk nk True el by (subst symmetric_loop.simps) (simp add: asymmetric_def)
        moreover have "scan_from m n m n" by (simp add: scan_from_def)
        moreover have "\<forall>a' b'. a' < b' \<and> b' < k \<and> scan_from m n a' b' \<and> \<not> scan_from m n a' b'
                   \<longrightarrow> \<not> asymmetric E y a' b'" by simp
        ultimately show ?thesis using True nk "1.prems"(3) by blast
      next
        case False
        have eq: "symmetric_loop E fn y name k m n s =
                  symmetric_loop E fn y name k m (Suc n) s"
          using mk nk False el by (subst symmetric_loop.simps) (simp add: asymmetric_def)
        have sc: "\<And>a b. scan_from m n a b = ((a = m \<and> b = n) \<or> scan_from m (Suc n) a b)"
          by (auto simp: scan_from_def)
        have IH: "(symmetric_loop E fn y name k m (Suc n) s = (Return True, s) \<and>
            (\<forall>a b. a < b \<and> b < k \<and> scan_from m (Suc n) a b \<longrightarrow> \<not> asymmetric E y a b))
         \<or> (\<exists>a b. a < b \<and> b < k \<and> scan_from m (Suc n) a b \<and> asymmetric E y a b \<and>
               (\<forall>a' b'. a' < b' \<and> b' < k \<and> scan_from m (Suc n) a' b' \<and> \<not> scan_from a b a' b'
                   \<longrightarrow> \<not> asymmetric E y a' b') \<and>
               symmetric_loop E fn y name k m (Suc n) s =
                 fail_with E fn (not_symmetric_message name a b (coeffs y b a))
                   (Num (coeffs y a b)) s)"
          using "1.IH"(1)[OF mk nk refl el(1) el(2)] False "1.prems"
          by (simp add: asymmetric_def)
        show ?thesis using IH False unfolding eq sc by metis
      qed
    qed
  qed
qed

text \<open>
  The loops with a counter of type \<open>int\<close>, started at a counter \<open>i\<close> with
  \<open>0 <= i <= INT_MAX\<close>. The scan of a vector ends in one of three ways:
  \<^item> the vector has at most \<open>INT_MAX\<close> entries and none from \<open>i\<close> on fails the test: the
    call returns \<open>true\<close> with the state untouched;
  \<^item> the vector has more than \<open>INT_MAX\<close> entries and none of those from \<open>i\<close> to \<open>INT_MAX\<close>
    fails the test: the counter overflows;
  \<^item> the failure block runs at the first entry from \<open>i\<close> on that fails the test; its
    index is at most \<open>INT_MAX\<close>, it is the index in the message, and the entry is the
    offending value.
\<close>

lemma not_nan_loop_scan:
  assumes "0 \<le> i" and "i \<le> INT_MAX"
  shows "(not_nan_loop E fn y name i s = (Return True, s) \<and> int (length y) \<le> INT_MAX \<and>
            (\<forall>j. i \<le> j \<and> j < int (length y) \<longrightarrow> \<not> isnan E (y ! nat j)))
         \<or> (not_nan_loop E fn y name i s = (Int_overflow, s) \<and> INT_MAX < int (length y) \<and>
            (\<forall>j. i \<le> j \<and> j \<le> INT_MAX \<longrightarrow> \<not> isnan E (y ! nat j)))
         \<or> (\<exists>j. i \<le> j \<and> j < int (length y) \<and> j \<le> INT_MAX \<and> isnan E (y ! nat j) \<and>
               (\<forall>j'. i \<le> j' \<and> j' < j \<longrightarrow> \<not> isnan E (y ! nat j')) \<and>
               not_nan_loop E fn y name i s =
                 fail_with E fn (nan_message name j) (Num (y ! nat j)) s)"
  using assms
proof (induction E fn y name i s rule: not_nan_loop.induct)
  case (1 E fn y name i s)
  show ?case
  proof (cases "i < int (length y)")
    case False
    then have "not_nan_loop E fn y name i s = (Return True, s)"
      by (subst not_nan_loop.simps) simp
    then show ?thesis using False "1.prems" by auto
  next
    case il: True
    have el: "vec_at y i = Some (y ! nat i)"
      using il "1.prems" by (simp add: vec_at_def)
    show ?thesis
    proof (cases "isnan E (y ! nat i)")
      case True
      have "not_nan_loop E fn y name i s =
            fail_with E fn (nan_message name i) (Num (y ! nat i)) s"
        using il True el by (subst not_nan_loop.simps) simp
      then show ?thesis using True il "1.prems" by (intro disjI2 exI[of _ i]) auto
    next
      case nn: False
      show ?thesis
      proof (cases "i = INT_MAX")
        case True
        have "not_nan_loop E fn y name i s = (Int_overflow, s)"
          using il nn el True by (subst not_nan_loop.simps) simp
        moreover have "\<forall>j. i \<le> j \<and> j \<le> INT_MAX \<longrightarrow> \<not> isnan E (y ! nat j)"
          using nn True by auto
        ultimately show ?thesis using il True by auto
      next
        case False
        have eq: "not_nan_loop E fn y name i s = not_nan_loop E fn y name (i + 1) s"
          using il nn el False by (subst not_nan_loop.simps) simp
        have split: "\<And>j. (i \<le> j) = (j = i \<or> i + 1 \<le> j)" by auto
        have b: "0 \<le> i + 1" "i + 1 \<le> INT_MAX" using "1.prems" False by auto
        show ?thesis
          using "1.IH"[OF il el nn False b] nn unfolding eq split by metis
      qed
    qed
  qed
qed

lemma finite_loop_scan:
  assumes "0 \<le> i" and "i \<le> INT_MAX"
  shows "(finite_loop E fn y name i s = (Return True, s) \<and> int (length y) \<le> INT_MAX \<and>
            (\<forall>j. i \<le> j \<and> j < int (length y) \<longrightarrow> isfinite E (y ! nat j)))
         \<or> (finite_loop E fn y name i s = (Int_overflow, s) \<and> INT_MAX < int (length y) \<and>
            (\<forall>j. i \<le> j \<and> j \<le> INT_MAX \<longrightarrow> isfinite E (y ! nat j)))
         \<or> (\<exists>j. i \<le> j \<and> j < int (length y) \<and> j \<le> INT_MAX \<and> \<not> isfinite E (y ! nat j) \<and>
               (\<forall>j'. i \<le> j' \<and> j' < j \<longrightarrow> isfinite E (y ! nat j')) \<and>
               finite_loop E fn y name i s =
                 fail_with E fn (not_finite_message name j) (Num (y ! nat j)) s)"
  using assms
proof (induction E fn y name i s rule: finite_loop.induct)
  case (1 E fn y name i s)
  show ?case
  proof (cases "i < int (length y)")
    case False
    then have "finite_loop E fn y name i s = (Return True, s)"
      by (subst finite_loop.simps) simp
    then show ?thesis using False "1.prems" by auto
  next
    case il: True
    have el: "vec_at y i = Some (y ! nat i)"
      using il "1.prems" by (simp add: vec_at_def)
    show ?thesis
    proof (cases "isfinite E (y ! nat i)")
      case False
      have "finite_loop E fn y name i s =
            fail_with E fn (not_finite_message name i) (Num (y ! nat i)) s"
        using il False el by (subst finite_loop.simps) simp
      then show ?thesis using False il "1.prems" by (intro disjI2 exI[of _ i]) auto
    next
      case fin: True
      show ?thesis
      proof (cases "i = INT_MAX")
        case True
        have "finite_loop E fn y name i s = (Int_overflow, s)"
          using il fin el True by (subst finite_loop.simps) simp
        moreover have "\<forall>j. i \<le> j \<and> j \<le> INT_MAX \<longrightarrow> isfinite E (y ! nat j)"
          using fin True by auto
        ultimately show ?thesis using il True by auto
      next
        case False
        have eq: "finite_loop E fn y name i s = finite_loop E fn y name (i + 1) s"
          using il fin el False by (subst finite_loop.simps) simp
        have split: "\<And>j. (i \<le> j) = (j = i \<or> i + 1 \<le> j)" by auto
        have b: "0 \<le> i + 1" "i + 1 \<le> INT_MAX" using "1.prems" False by auto
        have nn: "\<not> \<not> isfinite E (y ! nat i)" using fin by simp
        show ?thesis
          using "1.IH"[OF il el nn False b] fin unfolding eq split by metis
      qed
    qed
  qed
qed

text \<open>
  A vector of more than \<open>INT_MAX\<close> entries whose entries up to the index \<open>INT_MAX\<close> all pass
  the test: the counter overflows.
\<close>

lemma not_nan_loop_overflow:
  assumes "0 \<le> i" and "i \<le> INT_MAX" and "INT_MAX < int (length y)"
    and "\<forall>j. i \<le> j \<and> j \<le> INT_MAX \<longrightarrow> \<not> isnan E (y ! nat j)"
  shows "not_nan_loop E fn y name i s = (Int_overflow, s)"
  using not_nan_loop_scan[OF assms(1,2), of E fn y name s] assms(3,4) by auto

lemma finite_loop_overflow:
  assumes "0 \<le> i" and "i \<le> INT_MAX" and "INT_MAX < int (length y)"
    and "\<forall>j. i \<le> j \<and> j \<le> INT_MAX \<longrightarrow> isfinite E (y ! nat j)"
  shows "finite_loop E fn y name i s = (Int_overflow, s)"
  using finite_loop_scan[OF assms(1,2), of E fn y name s] assms(3,4) by auto

text \<open>
  The scan of a matrix with at most \<open>INT_MAX\<close> rows and at most \<open>INT_MAX\<close> columns, from
  the pair of counters \<open>(i, j)\<close> on: it returns \<open>true\<close> with the state untouched and no
  entry still to be visited is a NaN, or the failure block runs at the first NaN in the
  order of the scan (rows outside, columns inside), with its two indices in the message
  and the entry as the offending value.
\<close>

lemma not_nan_matrix_loop_scan:
  assumes "int (rows y) \<le> INT_MAX" and "int (cols y) \<le> INT_MAX" and "0 \<le> i" and "0 \<le> j"
  shows "(not_nan_matrix_loop E fn y name i j s = (Return True, s) \<and>
            (\<forall>a b. a < rows y \<and> b < cols y \<and> scan_from (nat i) (nat j) a b
                \<longrightarrow> \<not> isnan E (coeffs y a b)))
         \<or> (\<exists>a b. a < rows y \<and> b < cols y \<and> scan_from (nat i) (nat j) a b \<and>
               isnan E (coeffs y a b) \<and>
               (\<forall>a' b'. a' < rows y \<and> b' < cols y \<and> scan_from (nat i) (nat j) a' b' \<and>
                    \<not> scan_from a b a' b' \<longrightarrow> \<not> isnan E (coeffs y a' b')) \<and>
               not_nan_matrix_loop E fn y name i j s =
                 fail_with E fn (nan_matrix_message name (int a) (int b)) (Num (coeffs y a b)) s)"
  using assms
proof (induction E fn y name i j s rule: not_nan_matrix_loop.induct)
  case (1 E fn y name i j s)
  show ?case
  proof (cases "i < int (rows y)")
    case False
    then have "not_nan_matrix_loop E fn y name i j s = (Return True, s)"
      by (subst not_nan_matrix_loop.simps) simp
    moreover have "\<forall>a b. a < rows y \<and> b < cols y \<and> scan_from (nat i) (nat j) a b
                      \<longrightarrow> \<not> isnan E (coeffs y a b)"
      using False "1.prems" by (auto simp: scan_from_def)
    ultimately show ?thesis by blast
  next
    case ir: True
    have im: "i \<noteq> INT_MAX" using ir "1.prems" by simp
    show ?thesis
    proof (cases "j < int (cols y)")
      case False
      have eq: "not_nan_matrix_loop E fn y name i j s =
                not_nan_matrix_loop E fn y name (i + 1) 0 s"
        using ir False im by (subst not_nan_matrix_loop.simps) simp
      have sc: "\<And>a b. b < cols y \<Longrightarrow>
                  scan_from (nat i) (nat j) a b = scan_from (nat (i + 1)) (nat 0) a b"
        using False "1.prems" by (auto simp: scan_from_def)
      have b: "0 \<le> i + 1" "(0::int) \<le> 0" using "1.prems" by auto
      show ?thesis
        using "1.IH"(2)[OF ir False im "1.prems"(1) "1.prems"(2) b] unfolding eq using sc
        by metis
    next
      case jc: True
      have jm: "j \<noteq> INT_MAX" using jc "1.prems" by simp
      have el: "elem_int y i j = Some (coeffs y (nat i) (nat j))"
        using ir jc "1.prems" by (simp add: elem_int_def)
      have lt: "nat i < rows y" "nat j < cols y" using ir jc "1.prems" by auto
      show ?thesis
      proof (cases "isnan E (coeffs y (nat i) (nat j))")
        case True
        have "not_nan_matrix_loop E fn y name i j s =
              fail_with E fn (nan_matrix_message name (int (nat i)) (int (nat j)))
                (Num (coeffs y (nat i) (nat j))) s"
          using ir jc True el "1.prems" by (subst not_nan_matrix_loop.simps) simp
        moreover have "scan_from (nat i) (nat j) (nat i) (nat j)" by (simp add: scan_from_def)
        ultimately show ?thesis using True lt by blast
      next
        case False
        have eq: "not_nan_matrix_loop E fn y name i j s =
                  not_nan_matrix_loop E fn y name i (j + 1) s"
          using ir jc False el jm by (subst not_nan_matrix_loop.simps) simp
        have sc: "\<And>a b. scan_from (nat i) (nat j) a b =
                    ((a = nat i \<and> b = nat j) \<or> scan_from (nat i) (nat (j + 1)) a b)"
          using "1.prems" by (auto simp: scan_from_def)
        have b: "0 \<le> j + 1" using "1.prems" by auto
        show ?thesis
          using "1.IH"(1)[OF ir jc el False jm "1.prems"(1) "1.prems"(2) "1.prems"(3) b] False
          unfolding eq sc by metis
      qed
    qed
  qed
qed

text \<open>
  A row of more than \<open>INT_MAX\<close> columns whose entries up to the column \<open>INT_MAX\<close> are no
  NaN: the inner counter overflows.
\<close>

lemma not_nan_matrix_loop_overflow:
  assumes "0 \<le> i" and "i < int (rows y)" and "0 \<le> j" and "j \<le> INT_MAX"
    and "INT_MAX < int (cols y)"
    and "\<forall>b. j \<le> b \<and> b \<le> INT_MAX \<longrightarrow> \<not> isnan E (coeffs y (nat i) (nat b))"
  shows "not_nan_matrix_loop E fn y name i j s = (Int_overflow, s)"
  using assms
proof (induction E fn y name i j s rule: not_nan_matrix_loop.induct)
  case (1 E fn y name i j s)
  have ir: "i < int (rows y)" and jc: "j < int (cols y)" using "1.prems" by auto
  have el: "elem_int y i j = Some (coeffs y (nat i) (nat j))"
    using ir jc "1.prems" by (simp add: elem_int_def)
  have nn: "\<not> isnan E (coeffs y (nat i) (nat j))" using "1.prems" by auto
  show ?case
  proof (cases "j = INT_MAX")
    case True
    then show ?thesis using ir jc el nn by (subst not_nan_matrix_loop.simps) simp
  next
    case False
    have eq: "not_nan_matrix_loop E fn y name i j s =
              not_nan_matrix_loop E fn y name i (j + 1) s"
      using ir jc nn el False by (subst not_nan_matrix_loop.simps) simp
    have b: "0 \<le> j + 1" "j + 1 \<le> INT_MAX" using "1.prems" False by auto
    have rest: "\<forall>b. j + 1 \<le> b \<and> b \<le> INT_MAX \<longrightarrow> \<not> isnan E (coeffs y (nat i) (nat b))"
      using "1.prems" by auto
    show ?thesis
      unfolding eq
      using "1.IH"(1)[OF ir jc el nn False "1.prems"(1) ir b "1.prems"(5) rest] .
  qed
qed

text \<open>
  The whole of \<open>check_symmetric\<close> on a matrix with at least as many columns as rows: it
  returns \<open>true\<close> and leaves the state alone, or it runs the failure block at the first
  pair of the scan at which the test of line 61 holds.
\<close>

lemma check_symmetric_scan:
  assumes "rows y \<le> cols y"
  shows "(check_symmetric E fn y name s = (Return True, s) \<and>
            (\<forall>a b. a < b \<and> b < rows y \<longrightarrow> \<not> asymmetric E y a b \<or> rows y = 1))
         \<or> (\<exists>a b. a < b \<and> b < rows y \<and> asymmetric E y a b \<and>
               (\<forall>a' b'. a' < b' \<and> b' < rows y \<and> \<not> scan_from a b a' b'
                   \<longrightarrow> \<not> asymmetric E y a' b') \<and>
               check_symmetric E fn y name s =
                 fail_with E fn (not_symmetric_message name a b (coeffs y b a))
                   (Num (coeffs y a b)) s)"
proof (cases "rows y = 1")
  case True
  then show ?thesis by (simp add: check_symmetric_def)
next
  case False
  have sc: "\<And>a b. a < b \<Longrightarrow> scan_from 0 (0 + 1) a b"
    by (auto simp: scan_from_def)
  have eq: "check_symmetric E fn y name s = symmetric_loop E fn y name (rows y) 0 (0 + 1) s"
    using False by (simp add: check_symmetric_def)
  show ?thesis
    using symmetric_loop_scan[of "rows y" y 0 "0 + 1" E fn name s] assms sc
    unfolding eq by (simp only: le_refl) (metis zero_less_one add_0)
qed

text \<open>
  Claim C8, as the code has it. On every matrix that has at least as many columns as
  rows, square or not, every element that \<open>check_symmetric\<close> reads exists: the call never
  stops at a failed index assertion.
\<close>

theorem check_symmetric_in_range:
  assumes "rows y \<le> cols y"
  shows "fst (check_symmetric E fn y name s) \<noteq> Assert_fail"
  using check_symmetric_scan[OF assms, of E fn name s] fail_with_not_Assert[of E fn _ _ s]
  by (metis fst_conv outcome.distinct(3))

text \<open>A matrix of two rows and three columns is read inside its bounds.\<close>

theorem check_symmetric_in_range_witness:
  "rows (of_rows 3 [[Fin 1, Fin 2, Fin 9], [Fin 2, Fin 1, Fin 8]])
     \<le> cols (of_rows 3 [[Fin 1, Fin 2, Fin 9], [Fin 2, Fin 1, Fin 8]]) \<and>
   fst (check_symmetric raising_env ''f''
          (of_rows 3 [[Fin 1, Fin 2, Fin 9], [Fin 2, Fin 1, Fin 8]]) ''y'' no_slot)
     \<noteq> Assert_fail"
  using check_symmetric_in_range [of "of_rows 3 [[Fin 1, Fin 2, Fin 9], [Fin 2, Fin 1, Fin 8]]"
          raising_env "''f''" "''y''" no_slot]
  by (simp add: of_rows_def)

text \<open>
  Claim C8 as it is worded fails on a matrix of two rows and one column: the row count
  bounds both counters, and the first pair read is \<open>(0,1)\<close>, which lies outside the matrix.
\<close>

theorem check_symmetric_out_of_range_counterexample:
  "rows (of_rows 1 [[Fin 1], [Fin 2]]) = 2 \<and> cols (of_rows 1 [[Fin 1], [Fin 2]]) = 1 \<and>
   elem (of_rows 1 [[Fin 1], [Fin 2]]) 0 1 = None \<and>
   check_symmetric raising_env ''f'' (of_rows 1 [[Fin 1], [Fin 2]]) ''y'' no_slot
     = (Assert_fail, no_slot)"
  by code_simp

text \<open>
  Claim C2 at a matrix that holds a NaN. The header documents \<open>check_symmetric\<close> as
  returning \<open>true\<close> if the matrix is symmetric. On the matrix \<open>[[1, NaN], [0, 1]]\<close> of
  doubles the difference \<open>y(0,1) - y(1,0)\<close> is a NaN, the test
  \<open>fabs(y(0,1) - y(1,0)) > CONSTRAINT_TOLERANCE\<close> of line 61 is false, and the call returns
  \<open>true\<close> with the state untouched, while \<open>|y(0,1) - y(1,0)| <= CONSTRAINT_TOLERANCE\<close>
  does not hold for the pair \<open>(0,1)\<close>.
\<close>

theorem check_symmetric_accepts_nan:
  "rows (of_rows 2 [[Fin 1, NaN], [Fin 0, Fin 1]]) = 2 \<and>
   cols (of_rows 2 [[Fin 1, NaN], [Fin 0, Fin 1]]) = 2 \<and>
   check_symmetric quiet_env ''f'' (of_rows 2 [[Fin 1, NaN], [Fin 0, Fin 1]]) ''y'' slot7
     = (Return True, slot7) \<and>
   \<not> le quiet_env
        (fabs quiet_env
           (sub quiet_env (coeffs (of_rows 2 [[Fin 1, NaN], [Fin 0, Fin 1]]) 0 1)
              (coeffs (of_rows 2 [[Fin 1, NaN], [Fin 0, Fin 1]]) 1 0)))
        (CONSTRAINT_TOLERANCE quiet_env)"
  by code_simp

subsection \<open>\<open>check_pos_definite\<close>\<close>

text \<open>
  \<open>check_pos_definite\<close> in closed form. The entry \<open>y(0,0)\<close> is read by the test of the
  first branch when the row count is one, and by either failure block.
\<close>

lemma check_pos_definite_eq:
  "check_pos_definite E fn y name s =
     (if rows y = 1 \<and> cols y = 0 then (Assert_fail, s)
      else if (rows y = 1 \<and> le E (coeffs y 0 0) (CONSTRAINT_TOLERANCE E)) \<or>
              list_ex (\<lambda>d. le E d (CONSTRAINT_TOLERANCE E)) (ldlt_vectorD E y)
      then (if 0 < rows y \<and> 0 < cols y
            then fail_with E fn (not_pos_definite_message name) (Num (coeffs y 0 0)) s
            else (Assert_fail, s))
      else (Return True, s))"
  by (auto simp: check_pos_definite_def elem_def Let_def)

text \<open>
  Claim C7. Whenever \<open>check_pos_definite\<close> fails, by returning \<open>false\<close> or by the
  exception of the policy, the entry \<open>(0,0)\<close> exists and exactly one diagnostic is handed
  to \<open>raise_domain_error\<close>: its message is \<open>name\<close>, " is not positive definite. ",
  \<open>name\<close>, "(0,0) is %1%." and its value is \<open>y(0,0)\<close>, whichever branch failed and
  whichever diagonal factor was at or below the tolerance.
\<close>

theorem check_pos_definite_reports_00:
  assumes "fst (check_pos_definite E fn y name s) = Return False \<or>
           fst (check_pos_definite E fn y name s) = Throw e"
  shows "elem y 0 0 = Some (coeffs y 0 0) \<and>
         raised (snd (check_pos_definite E fn y name s)) =
           raised s @ [\<lparr>fname = fn,
                        message = [Lit name, Lit '' is not positive definite. '',
                                   Lit name, Lit ''(0,0) is %1%.''],
                        val = Num (coeffs y 0 0)\<rparr>] \<and>
         (fst (check_pos_definite E fn y name s) = Throw e \<longrightarrow>
            e = \<lparr>fname = fn,
                 message = [Lit name, Lit '' is not positive definite. '',
                            Lit name, Lit ''(0,0) is %1%.''],
                 val = Num (coeffs y 0 0)\<rparr>)"
  using assms
  by (auto simp: check_pos_definite_eq fail_with_eq Let_def elem_def not_pos_definite_message_def
           split: if_splits option.splits)

text \<open>
  On the diagonal matrix with the entries 2 and -3 the second factor is the one below
  the tolerance; the diagnostic names \<open>(0,0)\<close> and carries the value 2.
\<close>

theorem check_pos_definite_reports_00_witness:
  "fst (check_pos_definite quiet_env ''f''
       (of_rows 2 [[Fin 2, Fin 0], [Fin 0, Fin (- 3)]]) ''y'' slot7) = Return False \<and>
   ldlt_vectorD quiet_env (of_rows 2 [[Fin 2, Fin 0], [Fin 0, Fin (- 3)]])
     = [Fin 2, Fin (- 3)] \<and>
   raised (snd (check_pos_definite quiet_env ''f''
       (of_rows 2 [[Fin 2, Fin 0], [Fin 0, Fin (- 3)]]) ''y'' slot7)) =
     [\<lparr>fname = ''f'',
       message = [Lit ''y'', Lit '' is not positive definite. '', Lit ''y'', Lit ''(0,0) is %1%.''],
       val = Num (Fin 2)\<rparr>]"
proof -
  have f: "fst (check_pos_definite quiet_env ''f''
       (of_rows 2 [[Fin 2, Fin 0], [Fin 0, Fin (- 3)]]) ''y'' slot7) = Return False"
    by code_simp
  have d: "ldlt_vectorD quiet_env (of_rows 2 [[Fin 2, Fin 0], [Fin 0, Fin (- 3)]])
     = [Fin 2, Fin (- 3)]"
    by code_simp
  have c: "coeffs (of_rows 2 [[Fin 2, Fin 0], [Fin 0, Fin (- 3)]]) 0 0 = Fin 2"
    by (simp add: of_rows_def)
  show ?thesis
    using check_pos_definite_reports_00 [of quiet_env "''f''"
            "of_rows 2 [[Fin 2, Fin 0], [Fin 0, Fin (- 3)]]" "''y''" slot7, OF disjI1[OF f]]
          f d c
    by (simp add: slot7_def)
qed

text \<open>
  Claim C10. On a matrix with no rows and no columns \<open>check_pos_definite\<close> returns \<open>true\<close>
  and leaves the state as it was, so that no diagnostic is raised and the slot is not
  written: the row count is not one, so the first branch is not taken and \<open>y(0,0)\<close> is
  not read, and the sequence of diagonal factors of the empty matrix has no entry at or
  below the tolerance, having no entry at all.
\<close>

theorem check_pos_definite_empty:
  assumes "rows y = 0" and "cols y = 0"
  shows "check_pos_definite E fn y name s = (Return True, s) \<and>
         rows y \<noteq> 1 \<and>
         \<not> list_ex (\<lambda>d. le E d (CONSTRAINT_TOLERANCE E)) (ldlt_vectorD E y)"
  using assms by (simp add: check_pos_definite_eq ldlt_vectorD_def)

text \<open>The empty matrix of doubles, under the policy that raises.\<close>

theorem check_pos_definite_empty_witness:
  "rows (of_rows 0 ([] :: double list list)) = 0 \<and>
   cols (of_rows 0 ([] :: double list list)) = 0 \<and>
   check_pos_definite raising_env ''f'' (of_rows 0 []) ''y'' slot7 = (Return True, slot7)"
  using check_pos_definite_empty [of "of_rows 0 []" raising_env "''f''" "''y''" slot7]
  by (simp add: of_rows_def)

text \<open>
  Claim C1 at a matrix that holds a NaN. The header documents \<open>check_pos_definite\<close> as
  returning \<open>true\<close> if the matrix is positive definite. On the matrix \<open>[[NaN]]\<close> of
  doubles, whose only diagonal factor is its entry, both tests
  \<open><= CONSTRAINT_TOLERANCE\<close> (lines 95 and 107) are false and the call returns \<open>true\<close>
  with the state untouched, while the single entry does not exceed the tolerance.
\<close>

theorem check_pos_definite_accepts_nan:
  "rows (of_rows 1 [[NaN]]) = 1 \<and> cols (of_rows 1 [[NaN]]) = 1 \<and>
   ldlt_vectorD quiet_env (of_rows 1 [[NaN]]) = [NaN] \<and>
   check_pos_definite quiet_env ''f'' (of_rows 1 [[NaN]]) ''y'' slot7 = (Return True, slot7) \<and>
   \<not> gt quiet_env (coeffs (of_rows 1 [[NaN]]) 0 0) (CONSTRAINT_TOLERANCE quiet_env)"
  by code_simp

subsection \<open>The output slot\<close>

lemma settled_True: "settled E fn s (Return True, s)"
  by (simp add: settled_def)

lemma settled_fail: "settled E fn s (fail_with E fn msg v s)"
  by (auto simp: settled_def)

lemma settled_passed:
  assumes "settled E fn s r" and "fst r = Return True"
  shows "r = (Return True, s)"
  using assms fail_with_not_True[of E fn _ _ s] by (auto simp: settled_def)

lemma settled_and_then:
  assumes "settled E fn s r" and "settled E fn s (rest s)"
  shows "settled E fn s (and_then r rest)"
proof (cases "fst r = Return True")
  case True
  then have "r = (Return True, s)" using assms(1) by (rule settled_passed[rotated])
  then show ?thesis using assms(2) by simp
next
  case False
  then have "and_then r rest = r"
    by (cases r; cases "fst r") (auto split: bool.splits)
  then show ?thesis using assms(1) by simp
qed

lemma settled_slot_contract:
  assumes "settled E fn s r"
  shows "slot_contract E s r"
proof -
  have "slot_contract E s (Return True, s)" "slot_contract E s (Assert_fail, s)"
    "slot_contract E s (Int_overflow, s)"
    by (simp_all add: slot_contract_def)
  moreover have "slot_contract E s (fail_with E fn msg v s)" for msg v
    by (cases "policy E \<lparr>fname = fn, message = msg, val = v\<rparr>"; cases "result s")
       (simp_all add: slot_contract_def fail_with_eq Let_def)
  ultimately show ?thesis using assms by (auto simp: settled_def)
qed

lemma settled_check_size_match: "settled E fn s (check_size_match E fn i j s)"
  by (simp add: check_size_match_def settled_True settled_fail)

lemma settled_check_positive: "settled E fn s (check_positive E fn x name s)"
  by (simp add: check_positive_def settled_True settled_fail)

lemma settled_symmetric_loop: "settled E fn s (symmetric_loop E fn y name k m n s)"
proof (induction E fn y name k m n s rule: symmetric_loop.induct)
  case (1 E fn y name k m n s)
  show ?case
    using "1.IH"
    by (subst symmetric_loop.simps)
       (auto simp: settled_True settled_fail settled_def[of _ _ _ "(Assert_fail, _)"]
             split: option.splits)
qed

lemma settled_check_symmetric: "settled E fn s (check_symmetric E fn y name s)"
  by (simp add: check_symmetric_def Let_def settled_True settled_symmetric_loop)

lemma settled_check_pos_definite: "settled E fn s (check_pos_definite E fn y name s)"
  by (simp add: check_pos_definite_eq settled_True settled_fail settled_def[of _ _ _ "(Assert_fail, _)"])

lemma settled_unit_diagonal_loop: "settled E fn s (unit_diagonal_loop E fn y name k s)"
proof (induction E fn y name k s rule: unit_diagonal_loop.induct)
  case (1 E fn y name k s)
  show ?case
    using "1.IH"
    by (subst unit_diagonal_loop.simps)
       (auto simp: settled_True settled_fail settled_def[of _ _ _ "(Assert_fail, _)"]
             split: option.splits)
qed

lemma settled_not_nan_loop: "settled E fn s (not_nan_loop E fn y name i s)"
proof (induction E fn y name i s rule: not_nan_loop.induct)
  case (1 E fn y name i s)
  show ?case
    using "1.IH"
    by (subst not_nan_loop.simps)
       (auto simp: settled_True settled_fail settled_def[of _ _ _ "(Assert_fail, _)"]
             settled_def[of _ _ _ "(Int_overflow, _)"]
             split: option.splits)
qed

lemma settled_finite_loop: "settled E fn s (finite_loop E fn y name i s)"
proof (induction E fn y name i s rule: finite_loop.induct)
  case (1 E fn y name i s)
  show ?case
    using "1.IH"
    by (subst finite_loop.simps)
       (auto simp: settled_True settled_fail settled_def[of _ _ _ "(Assert_fail, _)"]
             settled_def[of _ _ _ "(Int_overflow, _)"]
             split: option.splits)
qed

lemma settled_not_nan_matrix_loop: "settled E fn s (not_nan_matrix_loop E fn y name i j s)"
proof (induction E fn y name i j s rule: not_nan_matrix_loop.induct)
  case (1 E fn y name i j s)
  show ?case
    using "1.IH"
    by (subst not_nan_matrix_loop.simps)
       (auto simp: settled_True settled_fail settled_def[of _ _ _ "(Assert_fail, _)"]
             settled_def[of _ _ _ "(Int_overflow, _)"]
             split: option.splits)
qed

lemma settled_check_cov_matrix: "settled E fn s (check_cov_matrix E fn y name s)"
  unfolding check_cov_matrix_def
  by (intro settled_and_then settled_check_size_match settled_check_positive
        settled_check_symmetric settled_check_pos_definite settled_True)

lemma settled_check_cov_matrix_Sigma: "settled E fn s (check_cov_matrix_Sigma E fn y s)"
  unfolding check_cov_matrix_Sigma_def
  by (intro settled_and_then settled_check_size_match settled_check_positive
        settled_check_symmetric settled_True)

lemma settled_check_corr_matrix: "settled E fn s (check_corr_matrix E fn y name s)"
  unfolding check_corr_matrix_def
  by (intro settled_and_then settled_check_size_match settled_check_positive
        settled_check_symmetric settled_unit_diagonal_loop settled_check_pos_definite settled_True)

text \<open>
  Claim C9, as the code has it. For every predicate of the layer: the slot is written
  exactly when the predicate returns \<open>false\<close>, that is when \<open>raise_domain_error\<close> handed
  back a value instead of raising, and the pointer is not null, and then it receives
  that value; on every call that returns \<open>true\<close> and on every call left by the
  exception of the policy the slot's contents are unchanged; a null pointer is never
  written through.
\<close>

theorem output_slot_contract:
  "slot_contract E s (check_size_match E fn i j s) \<and>
   slot_contract E s (check_symmetric E fn y name s) \<and>
   slot_contract E s (check_pos_definite E fn y name s) \<and>
   slot_contract E s (check_cov_matrix E fn y name s) \<and>
   slot_contract E s (check_cov_matrix_Sigma E fn y s) \<and>
   slot_contract E s (check_corr_matrix E fn y name s) \<and>
   slot_contract E s (check_not_nan E fn v name s) \<and>
   slot_contract E s (check_not_nan_matrix E fn y name s) \<and>
   slot_contract E s (check_finite E fn v name s)"
  by (intro conjI settled_slot_contract[of E fn])
     (simp_all add: settled_check_size_match settled_check_symmetric settled_check_pos_definite
        settled_check_cov_matrix settled_check_cov_matrix_Sigma settled_check_corr_matrix
        check_not_nan_def check_not_nan_matrix_def check_finite_def
        settled_not_nan_loop settled_not_nan_matrix_loop settled_finite_loop)

text \<open>
  A size mismatch under a policy that hands back 0: a slot
  holding 7 then holds 0, a null pointer stays null, and equal sizes leave the slot alone.
\<close>

theorem output_slot_contract_witness:
  "check_size_match quiet_env ''f'' 1 2 slot7
     = (Return False,
        \<lparr>result = Slot 0,
         raised = [\<lparr>fname = ''f'',
                    message = [Lit ''i and j must be same.  Found i=%1%, j='', Put (Dim 2)],
                    val = Dim 1\<rparr>]\<rparr>) \<and>
   check_size_match quiet_env ''f'' 1 2 no_slot
     = (Return False,
        \<lparr>result = Null,
         raised = [\<lparr>fname = ''f'',
                    message = [Lit ''i and j must be same.  Found i=%1%, j='', Put (Dim 2)],
                    val = Dim 1\<rparr>]\<rparr>) \<and>
   check_size_match quiet_env ''f'' 2 2 slot7 = (Return True, slot7) \<and>
   slot_contract quiet_env slot7 (check_size_match quiet_env ''f'' 1 2 slot7)"
  using output_slot_contract [of quiet_env slot7 "''f''" 1 2]
  by (simp add: check_size_match_def fail_with_eq quiet_env_def double_env_def quiet_def
        slot7_def no_slot_def)

text \<open>
  Claim C9 as it is worded fails under a policy that raises: the predicate fails, the
  pointer is not null, and the slot still holds 7, because the exception leaves the
  function before the assignment.
\<close>

theorem output_slot_raise_counterexample:
  "check_size_match raising_env ''f'' 1 2 slot7
     = (Throw \<lparr>fname = ''f'',
               message = [Lit ''i and j must be same.  Found i=%1%, j='', Put (Dim 2)],
               val = Dim 1\<rparr>,
        \<lparr>result = Slot 7,
         raised = [\<lparr>fname = ''f'',
                    message = [Lit ''i and j must be same.  Found i=%1%, j='', Put (Dim 2)],
                    val = Dim 1\<rparr>]\<rparr>)"
  by (simp add: check_size_match_def fail_with_eq Let_def raising_env_def double_env_def
        raising_def slot7_def)

subsection \<open>The composite predicates\<close>

text \<open>
  Claim C3 at a matrix that holds a NaN. The header documents \<open>check_corr_matrix\<close> as
  returning \<open>true\<close> for a valid correlation matrix, which has a unit diagonal. On the
  matrix \<open>[[NaN]]\<close> of doubles all five steps pass: the sizes agree, the row count is
  positive, a matrix of order one is not scanned for symmetry, the test
  \<open>fabs(y(0,0) - 1.0) > CONSTRAINT_TOLERANCE\<close> of line 172 is false, and so are the tests
  of \<open>check_pos_definite\<close>. The call returns \<open>true\<close> with the state untouched, while the
  diagonal entry is not within the tolerance of \<open>1.0\<close>.
\<close>

theorem check_corr_matrix_accepts_nan:
  "rows (of_rows 1 [[NaN]]) = 1 \<and> cols (of_rows 1 [[NaN]]) = 1 \<and>
   check_corr_matrix quiet_env ''f'' (of_rows 1 [[NaN]]) ''y'' slot7 = (Return True, slot7) \<and>
   \<not> le quiet_env
        (fabs quiet_env (sub quiet_env (coeffs (of_rows 1 [[NaN]]) 0 0) (lit_one quiet_env)))
        (CONSTRAINT_TOLERANCE quiet_env)"
  by code_simp

text \<open>
  Claim C4 at a matrix that holds a NaN. The header documents \<open>check_cov_matrix\<close> as
  returning \<open>true\<close> for a valid covariance matrix, which is symmetric and positive
  definite. On the matrix \<open>[[NaN]]\<close> of doubles all four steps pass and the call returns
  \<open>true\<close> with the state untouched, while the single entry does not exceed the
  tolerance.
\<close>

theorem check_cov_matrix_accepts_nan:
  "rows (of_rows 1 [[NaN]]) = 1 \<and> cols (of_rows 1 [[NaN]]) = 1 \<and>
   check_cov_matrix quiet_env ''f'' (of_rows 1 [[NaN]]) ''y'' slot7 = (Return True, slot7) \<and>
   \<not> gt quiet_env (coeffs (of_rows 1 [[NaN]]) 0 0) (CONSTRAINT_TOLERANCE quiet_env)"
  by code_simp

text \<open>
  Claim C5 at two matrices. The overload of \<open>check_cov_matrix\<close> without a name returns
  \<open>true\<close> on the matrix \<open>[[1, NaN], [0, 1]]\<close> of doubles, which is square and has a
  positive row count, while \<open>|y(0,1) - y(1,0)| <= CONSTRAINT_TOLERANCE\<close> does not hold.
  On the matrix \<open>[[1, 2], [3, 1]]\<close> both overloads fail at the pair \<open>(0,1)\<close> of the
  symmetry step, the overload with a name being called with the name "Sigma": it
  ignores its parameter and prints the matrix as "y", so that the two diagnostics
  differ.
\<close>

theorem check_cov_matrix_overloads_diverge:
  "rows (of_rows 2 [[Fin 1, NaN], [Fin 0, Fin 1]]) = 2 \<and>
   cols (of_rows 2 [[Fin 1, NaN], [Fin 0, Fin 1]]) = 2 \<and>
   check_cov_matrix_Sigma quiet_env ''f'' (of_rows 2 [[Fin 1, NaN], [Fin 0, Fin 1]]) slot7
     = (Return True, slot7) \<and>
   \<not> le quiet_env
        (fabs quiet_env
           (sub quiet_env (coeffs (of_rows 2 [[Fin 1, NaN], [Fin 0, Fin 1]]) 0 1)
              (coeffs (of_rows 2 [[Fin 1, NaN], [Fin 0, Fin 1]]) 1 0)))
        (CONSTRAINT_TOLERANCE quiet_env) \<and>
   raised (snd (check_cov_matrix quiet_env ''f''
                  (of_rows 2 [[Fin 1, Fin 2], [Fin 3, Fin 1]]) ''Sigma'' slot7))
     = [\<lparr>fname = ''f'',
         message = [Lit ''y'', Lit '' is not symmetric. '',
                    Lit ''y'', Lit ''['', Put (Dim 0), Lit '','', Put (Dim 1), Lit ''] is %1%, but '',
                    Lit ''y'', Lit ''['', Put (Dim 1), Lit '','', Put (Dim 0), Lit ''] element is '',
                    Put (Num (Fin 3))],
         val = Num (Fin 2)\<rparr>] \<and>
   raised (snd (check_cov_matrix_Sigma quiet_env ''f''
                  (of_rows 2 [[Fin 1, Fin 2], [Fin 3, Fin 1]]) slot7))
     = [\<lparr>fname = ''f'',
         message = [Lit ''Sigma'', Lit '' is not symmetric. '',
                    Lit ''Sigma'', Lit ''['', Put (Dim 0), Lit '','', Put (Dim 1), Lit ''] is %1%, but '',
                    Lit ''Sigma'', Lit ''['', Put (Dim 1), Lit '','', Put (Dim 0), Lit ''] element is '',
                    Put (Num (Fin 3))],
         val = Num (Fin 2)\<rparr>]"
  by code_simp

subsection \<open>\<open>check_not_nan\<close> and \<open>check_finite\<close>\<close>

text \<open>
  Claim C6 at a vector of \<open>2^31\<close> entries, all of them \<open>0.0\<close>, and at a matrix of one row
  and \<open>2^31\<close> columns, all entries \<open>0.0\<close>. No entry is a NaN and every entry is finite, so
  the three predicates are to return \<open>true\<close>. Their counters are declared \<open>int\<close>, where
  the other loops of the header use \<open>size_type\<close>: after the entry with the index
  \<open>INT_MAX = 2^31 - 1\<close> the increment of the counter overflows, in both overloads of
  \<open>check_not_nan\<close> and in \<open>check_finite\<close>.
\<close>

theorem check_not_nan_finite_int_overflow:
  "length (replicate 2147483648 (Fin 0)) = 2147483648 \<and>
   set (replicate 2147483648 (Fin 0)) = {Fin 0} \<and>
   \<not> isnan (quiet_env :: (double, nat) env) (Fin 0) \<and>
   isfinite (quiet_env :: (double, nat) env) (Fin 0) \<and>
   check_not_nan quiet_env ''f'' (replicate 2147483648 (Fin 0)) ''y'' slot7
     = (Int_overflow, slot7) \<and>
   check_finite quiet_env ''f'' (replicate 2147483648 (Fin 0)) ''y'' slot7
     = (Int_overflow, slot7) \<and>
   check_not_nan_matrix quiet_env ''f''
       \<lparr>rows = 1, cols = 2147483648, coeffs = (\<lambda>i j. Fin 0)\<rparr> ''y'' slot7
     = (Int_overflow, slot7)"
proof -
  have E: "isnan (quiet_env :: (double, nat) env) = double_isnan"
    "isfinite (quiet_env :: (double, nat) env) = double_isfinite"
    by (simp_all add: quiet_env_def double_env_def)
  have A: "length (replicate 2147483648 (Fin 0)) = 2147483648"
    "set (replicate 2147483648 (Fin 0)) = {Fin 0}"
    by simp_all
  have B: "\<not> isnan (quiet_env :: (double, nat) env) (Fin 0)"
    "isfinite (quiet_env :: (double, nat) env) (Fin 0)"
    by (simp_all add: E)
  have nth: "\<forall>j. (0::int) \<le> j \<and> j \<le> INT_MAX \<longrightarrow>
               replicate 2147483648 (Fin 0) ! nat j = Fin 0"
  proof (intro allI impI)
    fix j :: int
    assume "0 \<le> j \<and> j \<le> INT_MAX"
    then have "nat j < 2147483648" by (simp add: INT_MAX_def nat_less_iff)
    then show "replicate 2147483648 (Fin 0) ! nat j = Fin 0" by (rule nth_replicate)
  qed
  have C: "check_not_nan quiet_env ''f'' (replicate 2147483648 (Fin 0)) ''y'' slot7
     = (Int_overflow, slot7)"
    unfolding check_not_nan_def
    by (rule not_nan_loop_overflow) (use nth B in \<open>simp_all add: INT_MAX_def\<close>)
  have D: "check_finite quiet_env ''f'' (replicate 2147483648 (Fin 0)) ''y'' slot7
     = (Int_overflow, slot7)"
    unfolding check_finite_def
    by (rule finite_loop_overflow) (use nth B in \<open>simp_all add: INT_MAX_def\<close>)
  have F: "check_not_nan_matrix quiet_env ''f''
       \<lparr>rows = 1, cols = 2147483648, coeffs = (\<lambda>i j. Fin 0)\<rparr> ''y'' slot7
     = (Int_overflow, slot7)"
    unfolding check_not_nan_matrix_def
    by (rule not_nan_matrix_loop_overflow) (use B in \<open>simp_all add: INT_MAX_def\<close>)
  show ?thesis
    by (rule conjI[OF A(1) conjI[OF A(2) conjI[OF B(1) conjI[OF B(2) conjI[OF C conjI[OF D F]]]]]])
qed

end
